theory Spec2Isabelle
  imports Main
begin

section \<open>FlagShip: the flag store and its service API\<close>

text \<open>
  A shallow embedding of \<^verbatim>\<open>app/models.py\<close>, \<^verbatim>\<open>app/schemas.py\<close>, \<^verbatim>\<open>app/crud.py\<close>,
  \<^verbatim>\<open>app/auth.py\<close> and the endpoints of \<^verbatim>\<open>app/main.py\<close>.

  The table \<^verbatim>\<open>feature_flags\<close> is the list of its rows in storage order; a crud function
  takes the table and returns its result together with the table it leaves behind.
  What the code draws from outside (\<^verbatim>\<open>uuid.uuid4\<close>, \<^verbatim>\<open>func.now()\<close>, and whether the
  storage engine completes a commit) is an explicit input, the record \<open>backend\<close>.
  Strings are ASCII: \<open>length\<close> is Python's \<^verbatim>\<open>len\<close> and \<open>lower\<close> is \<^verbatim>\<open>str.lower\<close> on them.
\<close>

subsection \<open>Data model (models.py, schemas.py)\<close>

type_synonym uuid = nat
type_synonym datetime = nat

text \<open>\<^verbatim>\<open>FeatureFlagBase\<close>: the four caller-supplied fields, after validation.\<close>

record FeatureFlagBase =
  name :: string
  environment :: string
  enabled :: bool
  rollout :: int

type_synonym FeatureFlagCreate = FeatureFlagBase

text \<open>
  A row of \<^verbatim>\<open>feature_flags\<close> (the class \<^verbatim>\<open>FeatureFlag\<close>): the same four columns with the
  primary key \<^verbatim>\<open>id\<close> and \<^verbatim>\<open>updated_at\<close>.
\<close>

record FeatureFlag = FeatureFlagBase +
  flag_id :: uuid
  updated_at :: datetime

text \<open>\<^verbatim>\<open>FeatureFlagUpdate\<close>: both fields optional.\<close>

record FeatureFlagUpdate =
  upd_enabled :: "bool option"
  upd_rollout :: "int option"

type_synonym Session = "FeatureFlag list"

record backend =
  uuid4 :: uuid
  now :: datetime
  healthy :: bool

text \<open>
  The exceptions of \<^verbatim>\<open>exceptions.py\<close>, the two 401 answers of \<^verbatim>\<open>verify_api_key\<close> and
  FastAPI's answer to a request that fails validation.
\<close>

datatype api_error =
    ApiKeyRequired
  | InvalidApiKey
  | RequestValidationError
  | FlagNotFoundError string string
  | FlagAlreadyExistsError string string
  | DatabaseError


subsection \<open>The storage engine\<close>

datatype sql_error = IntegrityError | OperationalError

text \<open>
  The constraints of the table: the primary key on \<^verbatim>\<open>id\<close> and
  \<^verbatim>\<open>uq_flag_name_environment\<close> on the pair.
\<close>

definition violates_constraints :: "Session \<Rightarrow> FeatureFlag \<Rightarrow> bool" where
  "violates_constraints db flag =
     list_ex (\<lambda>r. flag_id r = flag_id flag \<or>
                   (name r = name flag \<and> environment r = environment flag)) db"

text \<open>\<^verbatim>\<open>db.add(flag); db.commit()\<close>\<close>

definition commit_add :: "backend \<Rightarrow> Session \<Rightarrow> FeatureFlag \<Rightarrow> sql_error + Session" where
  "commit_add w db flag =
     (if \<not> healthy w then Inl OperationalError
      else if violates_constraints db flag then Inl IntegrityError
      else Inr (db @ [flag]))"

text \<open>
  \<^verbatim>\<open>db.commit(); db.refresh(flag)\<close> after attribute changes on \<open>flag\<close>: an UPDATE by primary
  key, on which \<^verbatim>\<open>onupdate=func.now()\<close> sets \<^verbatim>\<open>updated_at\<close>; the refreshed row is returned.
\<close>

definition commit_update ::
  "backend \<Rightarrow> Session \<Rightarrow> FeatureFlag \<Rightarrow> sql_error + FeatureFlag \<times> Session" where
  "commit_update w db flag =
     (if \<not> healthy w then Inl OperationalError
      else Inr (flag\<lparr>updated_at := now w\<rparr>,
                map (\<lambda>r. if flag_id r = flag_id flag
                          then r\<lparr>enabled := enabled flag, rollout := rollout flag,
                                 updated_at := now w\<rparr>
                          else r) db))"

text \<open>\<^verbatim>\<open>db.delete(flag); db.commit()\<close>: a DELETE by primary key.\<close>

definition commit_delete :: "backend \<Rightarrow> Session \<Rightarrow> FeatureFlag \<Rightarrow> sql_error + Session" where
  "commit_delete w db flag =
     (if \<not> healthy w then Inl OperationalError
      else Inr (filter (\<lambda>r. flag_id r \<noteq> flag_id flag) db))"

subsection \<open>crud.py\<close>

definition get_flag :: "Session \<Rightarrow> string \<Rightarrow> string \<Rightarrow> FeatureFlag option" where
  "get_flag db n e = find (\<lambda>r. name r = n \<and> environment r = e) db"

definition get_flag_by_id :: "Session \<Rightarrow> uuid \<Rightarrow> FeatureFlag option" where
  "get_flag_by_id db i = find (\<lambda>r. flag_id r = i) db"

text \<open>
  The query that \<^verbatim>\<open>list_flags\<close> and \<^verbatim>\<open>count_flags\<close> both build: \<^verbatim>\<open>if environment:\<close> is
  false for \<^verbatim>\<open>None\<close> and for the empty string.
\<close>

definition flag_query :: "Session \<Rightarrow> string option \<Rightarrow> FeatureFlag list" where
  "flag_query db env =
     (case env of
        None \<Rightarrow> db
      | Some e \<Rightarrow> if e \<noteq> [] then filter (\<lambda>r. environment r = e) db else db)"

definition list_flags :: "Session \<Rightarrow> string option \<Rightarrow> nat \<Rightarrow> nat \<Rightarrow> FeatureFlag list" where
  "list_flags db env skip limit = take limit (drop skip (flag_query db env))"

definition count_flags :: "Session \<Rightarrow> string option \<Rightarrow> nat" where
  "count_flags db env = length (flag_query db env)"

definition create_flag ::
  "backend \<Rightarrow> Session \<Rightarrow> FeatureFlagCreate \<Rightarrow> (api_error + FeatureFlag) \<times> Session" where
  "create_flag w db flag_data =
     (case get_flag db (name flag_data) (environment flag_data) of
        Some existing \<Rightarrow>
          (Inl (FlagAlreadyExistsError (name flag_data) (environment flag_data)), db)
      | None \<Rightarrow>
          (let flag = \<lparr>name = name flag_data, environment = environment flag_data,
                       enabled = enabled flag_data, rollout = rollout flag_data,
                       flag_id = uuid4 w, updated_at = now w\<rparr>
           in case commit_add w db flag of
                Inr db' \<Rightarrow> (Inr flag, db')
              | Inl IntegrityError \<Rightarrow>
                  (Inl (FlagAlreadyExistsError (name flag_data) (environment flag_data)), db)
              | Inl OperationalError \<Rightarrow> (Inl DatabaseError, db)))"

text \<open>
  \<open>changes\<close> holds one entry for each field that was assigned, as the list of the source
  does; only its emptiness is read.
\<close>

definition update_flag ::
  "backend \<Rightarrow> Session \<Rightarrow> string \<Rightarrow> string \<Rightarrow> FeatureFlagUpdate
     \<Rightarrow> (api_error + FeatureFlag option) \<times> Session" where
  "update_flag w db n e flag_data =
     (case get_flag db n e of
        None \<Rightarrow> (Inr None, db)
      | Some flag \<Rightarrow>
          (let (flag1, changes1) =
                 (case upd_enabled flag_data of
                    Some b \<Rightarrow> if b \<noteq> enabled flag
                              then (flag\<lparr>enabled := b\<rparr>, [''enabled''])
                              else (flag, [])
                  | None \<Rightarrow> (flag, []));
               (flag2, changes2) =
                 (case upd_rollout flag_data of
                    Some r \<Rightarrow> if r \<noteq> rollout flag1
                              then (flag1\<lparr>rollout := r\<rparr>, changes1 @ [''rollout''])
                              else (flag1, changes1)
                  | None \<Rightarrow> (flag1, changes1))
           in if changes2 = [] then (Inr (Some flag2), db)
              else (case commit_update w db flag2 of
                      Inr (row, db') \<Rightarrow> (Inr (Some row), db')
                    | Inl err \<Rightarrow> (Inl DatabaseError, db))))"

definition delete_flag ::
  "backend \<Rightarrow> Session \<Rightarrow> string \<Rightarrow> string \<Rightarrow> (api_error + bool) \<times> Session" where
  "delete_flag w db n e =
     (case get_flag db n e of
        None \<Rightarrow> (Inr False, db)
      | Some flag \<Rightarrow>
          (case commit_delete w db flag of
             Inr db' \<Rightarrow> (Inr True, db')
           | Inl err \<Rightarrow> (Inl DatabaseError, db)))"

subsection \<open>schemas.py\<close>

definition lower_char :: "char \<Rightarrow> char" where
  "lower_char c =
     (case map_of (zip ''ABCDEFGHIJKLMNOPQRSTUVWXYZ'' ''abcdefghijklmnopqrstuvwxyz'') c of
        Some l \<Rightarrow> l
      | None \<Rightarrow> c)"

definition lower :: "string \<Rightarrow> string" where
  "lower s = map lower_char s"

definition allowed :: "string list" where
  "allowed = [''dev'', ''staging'', ''prod'', ''development'', ''production'']"

datatype validation_error = Missing | StringTooShort | StringTooLong | OutOfRange | ValueError

definition validate_environment :: "string \<Rightarrow> validation_error + string" where
  "validate_environment v = (if lower v \<notin> set allowed then Inl ValueError else Inr (lower v))"

text \<open>A JSON body for \<^verbatim>\<open>FeatureFlagCreate\<close>: each key may be absent.\<close>

record create_body =
  body_name :: "string option"
  body_environment :: "string option"
  body_enabled :: "bool option"
  body_rollout :: "int option"

text \<open>\<^verbatim>\<open>Field(..., min_length=lo, max_length=hi)\<close>\<close>

definition str_field :: "nat \<Rightarrow> nat \<Rightarrow> string option \<Rightarrow> validation_error + string" where
  "str_field lo hi v =
     (case v of
        None \<Rightarrow> Inl Missing
      | Some s \<Rightarrow> if length s < lo then Inl StringTooShort
                  else if hi < length s then Inl StringTooLong
                  else Inr s)"

text \<open>\<^verbatim>\<open>Field(default=d, ge=0, le=100)\<close> on create.\<close>

definition rollout_field :: "int option \<Rightarrow> validation_error + int" where
  "rollout_field v =
     (case v of
        None \<Rightarrow> Inr 100
      | Some r \<Rightarrow> if r < 0 \<or> 100 < r then Inl OutOfRange else Inr r)"

definition enabled_field :: "bool option \<Rightarrow> bool" where
  "enabled_field v = (case v of None \<Rightarrow> False | Some b \<Rightarrow> b)"

text \<open>
  Building a \<^verbatim>\<open>FeatureFlagCreate\<close> from a body: the field constraints, then the
  \<^verbatim>\<open>environment\<close> validator on a value that passed them.
\<close>

definition parse_FeatureFlagCreate :: "create_body \<Rightarrow> validation_error + FeatureFlagCreate" where
  "parse_FeatureFlagCreate b =
     (case str_field 1 100 (body_name b) of
        Inl err \<Rightarrow> Inl err
      | Inr n \<Rightarrow>
     (case str_field 1 50 (body_environment b) of
        Inl err \<Rightarrow> Inl err
      | Inr v \<Rightarrow>
     (case validate_environment v of
        Inl err \<Rightarrow> Inl err
      | Inr e \<Rightarrow>
     (case rollout_field (body_rollout b) of
        Inl err \<Rightarrow> Inl err
      | Inr r \<Rightarrow>
          Inr \<lparr>name = n, environment = e, enabled = enabled_field (body_enabled b),
               rollout = r\<rparr>))))"

text \<open>
  Building a \<^verbatim>\<open>FeatureFlagUpdate\<close>: \<^verbatim>\<open>Field(None, ge=0, le=100)\<close> and then the validator
  \<^verbatim>\<open>validate_rollout\<close>, which tests the same bound again.
\<close>

definition validate_rollout :: "int option \<Rightarrow> validation_error + int option" where
  "validate_rollout v =
     (case v of
        None \<Rightarrow> Inr None
      | Some r \<Rightarrow> if r < 0 \<or> r > 100 then Inl ValueError else Inr (Some r))"

definition parse_FeatureFlagUpdate :: "FeatureFlagUpdate \<Rightarrow> validation_error + FeatureFlagUpdate" where
  "parse_FeatureFlagUpdate b =
     (case upd_rollout b of
        None \<Rightarrow> Inr b
      | Some r \<Rightarrow>
          if r < 0 \<or> 100 < r then Inl OutOfRange
          else (case validate_rollout (Some r) of
                  Inl err \<Rightarrow> Inl err
                | Inr v \<Rightarrow> Inr (b\<lparr>upd_rollout := v\<rparr>)))"

subsection \<open>auth.py\<close>

record Settings =
  API_KEYS :: string

fun split_str :: "char \<Rightarrow> string \<Rightarrow> string list" where
  "split_str sep [] = [[]]"
| "split_str sep (c # cs) =
     (if c = sep then [] # split_str sep cs
      else (case split_str sep cs of
              [] \<Rightarrow> [[c]]
            | k # ks \<Rightarrow> (c # k) # ks))"

definition isspace :: "char \<Rightarrow> bool" where
  "isspace c = (c \<in> set [CHR '' '', CHR 0x09, CHR 0x0A, CHR 0x0B, CHR 0x0C, CHR 0x0D,
                          CHR 0x1C, CHR 0x1D, CHR 0x1E, CHR 0x1F])"

definition strip :: "string \<Rightarrow> string" where
  "strip s = rev (dropWhile isspace (rev (dropWhile isspace s)))"

definition get_api_keys :: "Settings \<Rightarrow> string list" where
  "get_api_keys settings =
     (let api_keys_str = API_KEYS settings
      in if api_keys_str \<noteq> []
         then [strip k. k \<leftarrow> split_str CHR '','' api_keys_str, strip k \<noteq> []]
         else [''dev-api-key-12345''])"

text \<open>
  The header \<^verbatim>\<open>X-API-Key\<close> may be absent (\<open>None\<close>); \<^verbatim>\<open>if not api_key\<close> holds for an absent
  and for an empty one.
\<close>

definition verify_api_key :: "Settings \<Rightarrow> string option \<Rightarrow> api_error + string" where
  "verify_api_key settings api_key =
     (let valid_keys = get_api_keys settings
      in case api_key of
           None \<Rightarrow> Inl ApiKeyRequired
         | Some k \<Rightarrow>
             if k = [] then Inl ApiKeyRequired
             else if k \<notin> set valid_keys then Inl InvalidApiKey
             else Inr k)"

subsection \<open>main.py\<close>

text \<open>
  The dependency \<^verbatim>\<open>verify_api_key\<close> is resolved before the endpoint's own parameters and
  body are validated, and both before the body of the endpoint runs.

  The body of a POST or PUT request is decoded as JSON before any dependency is resolved:
  a body that does not decode is answered with a validation error at once, whatever the
  credential. An absent body is found missing when the parameters are validated, after
  the dependencies.
\<close>

datatype 'a request_body = Undecodable | NoBody | Decoded 'a



definition create_feature_flag ::
  "Settings \<Rightarrow> backend \<Rightarrow> Session \<Rightarrow> string option \<Rightarrow> create_body request_body
     \<Rightarrow> (api_error + FeatureFlag) \<times> Session" where
  "create_feature_flag settings w db api_key body =
     (if body = Undecodable then (Inl RequestValidationError, db)
      else
        (case verify_api_key settings api_key of
           Inl err \<Rightarrow> (Inl err, db)
         | Inr key \<Rightarrow>
             (case body of
                Decoded b \<Rightarrow>
                  (case parse_FeatureFlagCreate b of
                     Inl err \<Rightarrow> (Inl RequestValidationError, db)
                   | Inr flag_data \<Rightarrow> create_flag w db flag_data)
              | _ \<Rightarrow> (Inl RequestValidationError, db))))"

text \<open>\<^verbatim>\<open>skip: Query(0, ge=0)\<close>, \<^verbatim>\<open>limit: Query(100, ge=1, le=1000)\<close>\<close>

definition list_feature_flags ::
  "Settings \<Rightarrow> Session \<Rightarrow> string option \<Rightarrow> string option \<Rightarrow> int option \<Rightarrow> int option
     \<Rightarrow> (api_error + FeatureFlag list \<times> nat) \<times> Session" where
  "list_feature_flags settings db api_key env skip_param limit_param =
     (case verify_api_key settings api_key of
        Inl err \<Rightarrow> (Inl err, db)
      | Inr key \<Rightarrow>
          (let skip = (case skip_param of None \<Rightarrow> 0 | Some s \<Rightarrow> s);
               limit = (case limit_param of None \<Rightarrow> 100 | Some l \<Rightarrow> l)
           in if skip < 0 \<or> limit < 1 \<or> 1000 < limit then (Inl RequestValidationError, db)
              else (Inr (list_flags db env (nat skip) (nat limit), count_flags db env), db)))"

text \<open>\<^verbatim>\<open>environment: str = Query(...)\<close> is required, and is any string.\<close>

definition fetch_feature_flag ::
  "Settings \<Rightarrow> Session \<Rightarrow> string option \<Rightarrow> string \<Rightarrow> string option
     \<Rightarrow> (api_error + FeatureFlag) \<times> Session" where
  "fetch_feature_flag settings db api_key n env =
     (case verify_api_key settings api_key of
        Inl err \<Rightarrow> (Inl err, db)
      | Inr key \<Rightarrow>
          (case env of
             None \<Rightarrow> (Inl RequestValidationError, db)
           | Some e \<Rightarrow>
               (case get_flag db n e of
                  None \<Rightarrow> (Inl (FlagNotFoundError n e), db)
                | Some flag \<Rightarrow> (Inr flag, db))))"

definition update_feature_flag ::
  "Settings \<Rightarrow> backend \<Rightarrow> Session \<Rightarrow> string option \<Rightarrow> string \<Rightarrow> string option
     \<Rightarrow> FeatureFlagUpdate request_body \<Rightarrow> (api_error + FeatureFlag) \<times> Session" where
  "update_feature_flag settings w db api_key n env body =
     (if body = Undecodable then (Inl RequestValidationError, db)
      else
        (case verify_api_key settings api_key of
           Inl err \<Rightarrow> (Inl err, db)
         | Inr key \<Rightarrow>
             (case env of
                None \<Rightarrow> (Inl RequestValidationError, db)
              | Some e \<Rightarrow>
                  (case body of
                     Decoded b \<Rightarrow>
                       (case parse_FeatureFlagUpdate b of
                          Inl err \<Rightarrow> (Inl RequestValidationError, db)
                        | Inr flag_data \<Rightarrow>
                            (case update_flag w db n e flag_data of
                               (Inl err, db') \<Rightarrow> (Inl err, db')
                             | (Inr None, db') \<Rightarrow> (Inl (FlagNotFoundError n e), db')
                             | (Inr (Some flag), db') \<Rightarrow> (Inr flag, db')))
                   | _ \<Rightarrow> (Inl RequestValidationError, db)))))"

definition delete_feature_flag ::
  "Settings \<Rightarrow> backend \<Rightarrow> Session \<Rightarrow> string option \<Rightarrow> string \<Rightarrow> string option
     \<Rightarrow> (api_error + unit) \<times> Session" where
  "delete_feature_flag settings w db api_key n env =
     (case verify_api_key settings api_key of
        Inl err \<Rightarrow> (Inl err, db)
      | Inr key \<Rightarrow>
          (case env of
             None \<Rightarrow> (Inl RequestValidationError, db)
           | Some e \<Rightarrow>
               (case delete_flag w db n e of
                  (Inl err, db') \<Rightarrow> (Inl err, db')
                | (Inr success, db') \<Rightarrow>
                    if \<not> success then (Inl (FlagNotFoundError n e), db')
                    else (Inr (), db'))))"

subsection \<open>Tables and histories\<close>

text \<open>
  A table satisfies the schema when the primary key and \<^verbatim>\<open>uq_flag_name_environment\<close> hold
  of its rows.
\<close>

definition table_ok :: "Session \<Rightarrow> bool" where
  "table_ok db =
     (distinct (map flag_id db) \<and> distinct (map (\<lambda>r. (name r, environment r)) db))"

text \<open>
  The writing calls of \<^verbatim>\<open>crud.py\<close>, each with the backend it meets, and the table that a
  history of such calls leaves when it starts from the empty table.
\<close>

datatype call =
    Create backend FeatureFlagCreate
  | Update backend string string FeatureFlagUpdate
  | Delete backend string string

fun step :: "Session \<Rightarrow> call \<Rightarrow> Session" where
  "step db (Create w flag_data) = snd (create_flag w db flag_data)"
| "step db (Update w n e flag_data) = snd (update_flag w db n e flag_data)"
| "step db (Delete w n e) = snd (delete_flag w db n e)"

definition run :: "call list \<Rightarrow> Session" where
  "run calls = foldl step [] calls"

text \<open>The fixture \<^verbatim>\<open>sample_flag_data\<close> of \<^verbatim>\<open>tests/conftest.py\<close>, and a working backend.\<close>

definition sample_flag_data :: FeatureFlagCreate where
  "sample_flag_data = \<lparr>name = ''test_feature'', environment = ''dev'', enabled = True,
                        rollout = 100\<rparr>"

definition backend_at :: "uuid \<Rightarrow> datetime \<Rightarrow> backend" where
  "backend_at i t = \<lparr>uuid4 = i, now = t, healthy = True\<rparr>"

text \<open>
  A client that pages exhaustively with a fixed \<open>limit\<close>: it asks for the pages at offsets
  \<open>skip\<close>, \<open>skip + limit\<close>, \<dots> until one comes back empty, and collects the records.
\<close>

function fetch_all_pages :: "Session \<Rightarrow> string option \<Rightarrow> nat \<Rightarrow> nat \<Rightarrow> FeatureFlag list" where
  "fetch_all_pages db env skip limit =
     (if list_flags db env skip limit = [] then []
      else list_flags db env skip limit @ fetch_all_pages db env (skip + limit) limit)"
  by pat_completeness auto
termination
  by (relation "measure (\<lambda>(db, env, skip, limit). count_flags db env - skip)")
     (auto simp: list_flags_def count_flags_def)

declare fetch_all_pages.simps [simp del]

text \<open>The three flags of \<^verbatim>\<open>test_list_flags\<close> and \<^verbatim>\<open>test_count_flags\<close> in \<^verbatim>\<open>tests/test_crud.py\<close>.\<close>

definition three_flags :: Session where
  "three_flags =
     [\<lparr>name = ''flag1'', environment = ''dev'', enabled = True, rollout = 100,
       flag_id = 1, updated_at = 10\<rparr>,
      \<lparr>name = ''flag2'', environment = ''dev'', enabled = False, rollout = 50,
       flag_id = 2, updated_at = 20\<rparr>,
      \<lparr>name = ''flag1'', environment = ''staging'', enabled = True, rollout = 75,
       flag_id = 3, updated_at = 30\<rparr>]"

text \<open>
  The default of \<^verbatim>\<open>Settings.API_KEYS\<close> in \<^verbatim>\<open>config.py\<close>, the fixture as a request body, and
  a stored flag of the production environment.
\<close>

definition default_settings :: Settings where
  "default_settings = \<lparr>API_KEYS = ''dev-api-key-12345''\<rparr>"

definition sample_body :: create_body where
  "sample_body = \<lparr>body_name = Some ''test_feature'', body_environment = Some ''dev'',
                   body_enabled = Some True, body_rollout = Some 100\<rparr>"

definition prod_flag :: FeatureFlag where
  "prod_flag = \<lparr>name = ''new_ui'', environment = ''prod'', enabled = True, rollout = 100,
                 flag_id = 1, updated_at = 10\<rparr>"

subsection \<open>What the crud functions compute\<close>

lemma get_flag_None_iff:
  "get_flag db n e = None \<longleftrightarrow> (n, e) \<notin> set (map (\<lambda>r. (name r, environment r)) db)"
  by (force simp: get_flag_def find_None_iff image_iff)

lemma get_flag_Some_D:
  "get_flag db n e = Some flag \<Longrightarrow> flag \<in> set db \<and> name flag = n \<and> environment flag = e"
  by (auto simp: get_flag_def find_Some_iff)

lemma violates_constraints_iff:
  "violates_constraints db flag \<longleftrightarrow>
     flag_id flag \<in> set (map flag_id db)
     \<or> (name flag, environment flag) \<in> set (map (\<lambda>r. (name r, environment r)) db)"
  unfolding violates_constraints_def list_ex_iff
  by (simp add: image_iff) metis

lemma create_flag_cases:
  "create_flag w db fd =
     (if get_flag db (name fd) (environment fd) \<noteq> None
      then (Inl (FlagAlreadyExistsError (name fd) (environment fd)), db)
      else if \<not> healthy w then (Inl DatabaseError, db)
      else if uuid4 w \<in> set (map flag_id db)
      then (Inl (FlagAlreadyExistsError (name fd) (environment fd)), db)
      else (Inr \<lparr>name = name fd, environment = environment fd, enabled = enabled fd,
                 rollout = rollout fd, flag_id = uuid4 w, updated_at = now w\<rparr>,
            db @ [\<lparr>name = name fd, environment = environment fd, enabled = enabled fd,
                   rollout = rollout fd, flag_id = uuid4 w, updated_at = now w\<rparr>]))"
proof (cases "get_flag db (name fd) (environment fd)")
  case None
  then have "(name fd, environment fd) \<notin> set (map (\<lambda>r. (name r, environment r)) db)"
    by (simp add: get_flag_None_iff)
  with None show ?thesis
    by (simp add: create_flag_def commit_add_def violates_constraints_iff Let_def)
next
  case (Some existing)
  then show ?thesis by (simp add: create_flag_def)
qed

lemma table_ok_create: "table_ok db \<Longrightarrow> table_ok (snd (create_flag w db fd))"
  by (auto simp: create_flag_cases table_ok_def get_flag_None_iff)

lemma update_rows:
  "snd (update_flag w db n e d) = db \<or>
   (\<exists>i b r t. snd (update_flag w db n e d) =
       map (\<lambda>x. if flag_id x = i then x\<lparr>enabled := b, rollout := r, updated_at := t\<rparr> else x) db)"
  by (auto simp: update_flag_def commit_update_def Let_def split: option.splits if_splits)

lemma key_update:
  "flag_id \<circ> (\<lambda>x. if flag_id x = i then x\<lparr>enabled := b, rollout := r, updated_at := t\<rparr> else x)
     = flag_id"
  "name \<circ> (\<lambda>x. if flag_id x = i then x\<lparr>enabled := b, rollout := r, updated_at := t\<rparr> else x)
     = name"
  "environment \<circ> (\<lambda>x. if flag_id x = i then x\<lparr>enabled := b, rollout := r, updated_at := t\<rparr> else x)
     = environment"
  "(\<lambda>r. (name r, environment r)) \<circ>
     (\<lambda>x. if flag_id x = i then x\<lparr>enabled := b, rollout := r, updated_at := t\<rparr> else x)
     = (\<lambda>r. (name r, environment r))"
  by (simp_all add: fun_eq_iff)

lemma table_ok_update: "table_ok db \<Longrightarrow> table_ok (snd (update_flag w db n e d))"
  using update_rows [of w db n e d] by (auto simp: table_ok_def key_update)

lemma delete_flag_cases:
  "delete_flag w db n e =
     (case get_flag db n e of
        None \<Rightarrow> (Inr False, db)
      | Some flag \<Rightarrow> if healthy w then (Inr True, filter (\<lambda>r. flag_id r \<noteq> flag_id flag) db)
                     else (Inl DatabaseError, db))"
  by (simp add: delete_flag_def commit_delete_def split: option.splits)

lemma table_ok_filter: "table_ok db \<Longrightarrow> table_ok (filter P db)"
  by (simp add: table_ok_def distinct_map_filter)

lemma table_ok_delete: "table_ok db \<Longrightarrow> table_ok (snd (delete_flag w db n e))"
  by (auto simp: delete_flag_cases table_ok_filter split: option.splits)

lemma table_ok_step: "table_ok db \<Longrightarrow> table_ok (step db c)"
  by (cases c) (simp_all add: table_ok_create table_ok_update table_ok_delete)

lemma table_ok_foldl: "table_ok db \<Longrightarrow> table_ok (foldl step db calls)"
  by (induction calls arbitrary: db) (simp_all add: table_ok_step)

lemma table_ok_run: "table_ok (run calls)"
  unfolding run_def by (rule table_ok_foldl) (simp add: table_ok_def)

lemma distinct_key_filter_le1:
  "distinct (map f xs) \<Longrightarrow> length (filter (\<lambda>x. f x = k) xs) \<le> Suc 0"
proof (induction xs)
  case Nil
  then show ?case by simp
next
  case (Cons x xs)
  have "f y \<noteq> f x" if "y \<in> set xs" for y
    using Cons.prems that by (metis distinct.simps(2) imageI list.simps(9) list.set_map)
  then have "f x = k \<Longrightarrow> filter (\<lambda>y. f y = k) xs = []"
    by (auto simp: filter_empty_conv)
  with Cons show ?case by auto
qed

lemma table_ok_pair_le1:
  "table_ok db \<Longrightarrow> length (filter (\<lambda>r. name r = n \<and> environment r = e) db) \<le> 1"
  using distinct_key_filter_le1 [of "\<lambda>r. (name r, environment r)" db "(n, e)"]
  by (simp add: table_ok_def)

lemma find_append_case:
  "find P (xs @ ys) = (case find P xs of None \<Rightarrow> find P ys | Some x \<Rightarrow> Some x)"
  by (induction xs) auto

lemma find_map_stable:
  "(\<And>x. P (g x) = P x) \<Longrightarrow> find P (map g xs) = map_option g (find P xs)"
  by (induction xs) auto

lemma id_determines_row:
  assumes "distinct (map flag_id db)" "flag \<in> set db" "r \<in> set db"
  shows "flag_id r = flag_id flag \<longleftrightarrow> r = flag"
  using assms by (auto simp: distinct_map dest: inj_onD)

lemma pair_determines_row:
  assumes "distinct (map (\<lambda>r. (name r, environment r)) db)" "flag \<in> set db" "r \<in> set db"
  shows "name r = name flag \<and> environment r = environment flag \<longleftrightarrow> r = flag"
  using assms by (auto simp: distinct_map dest: inj_onD)

lemma get_flag_after_delete:
  assumes "table_ok db" "get_flag db n e = Some flag"
  shows "filter (\<lambda>r. flag_id r \<noteq> flag_id flag) db = removeAll flag db"
    and "get_flag (removeAll flag db) n e = None"
proof -
  from assms(2) have mem: "flag \<in> set db" and key: "name flag = n" "environment flag = e"
    by (simp_all add: get_flag_Some_D)
  from assms(1) have d1: "distinct (map flag_id db)"
    and d2: "distinct (map (\<lambda>r. (name r, environment r)) db)"
    by (simp_all add: table_ok_def)
  show "filter (\<lambda>r. flag_id r \<noteq> flag_id flag) db = removeAll flag db"
    unfolding removeAll_filter_not_eq
    by (rule filter_cong [OF refl]) (use id_determines_row [OF d1 mem] in auto)
  have "\<not> (name r = n \<and> environment r = e)" if "r \<in> set (removeAll flag db)" for r
    using pair_determines_row [OF d2 mem, of r] that key by auto
  then show "get_flag (removeAll flag db) n e = None"
    unfolding get_flag_def find_None_iff by blast
qed

lemma update_flag_cases:
  "update_flag w db n e d =
     (case get_flag db n e of
        None \<Rightarrow> (Inr None, db)
      | Some flag \<Rightarrow>
          (let b = (case upd_enabled d of None \<Rightarrow> enabled flag | Some v \<Rightarrow> v);
               r = (case upd_rollout d of None \<Rightarrow> rollout flag | Some v \<Rightarrow> v)
           in if b = enabled flag \<and> r = rollout flag then (Inr (Some flag), db)
              else if healthy w
              then (Inr (Some (flag\<lparr>enabled := b, rollout := r, updated_at := now w\<rparr>)),
                    map (\<lambda>x. if flag_id x = flag_id flag
                             then x\<lparr>enabled := b, rollout := r, updated_at := now w\<rparr>
                             else x) db)
              else (Inl DatabaseError, db)))"
  by (auto simp: update_flag_def commit_update_def Let_def split: option.splits)


subsection \<open>Uniqueness of the pair\<close>

text \<open>
  C1. In every table that a history of create, update and delete calls leaves, at most one
  row carries a given pair (name, environment). A create call for a pair that a row of the
  table already carries fails with \<^verbatim>\<open>FlagAlreadyExistsError\<close> and leaves the table as it
  was, so no second row is inserted.
\<close>

theorem pair_unique_and_create_conflict:
  "length (filter (\<lambda>r. name r = n \<and> environment r = e) (run calls)) \<le> 1
   \<and> (get_flag db (name flag_data) (environment flag_data) \<noteq> None \<longrightarrow>
        create_flag w db flag_data
          = (Inl (FlagAlreadyExistsError (name flag_data) (environment flag_data)), db))"
  using table_ok_pair_le1 [OF table_ok_run, of n e calls]
  by (simp add: create_flag_cases)


theorem pair_unique_and_create_conflict_witness:
  "length (filter (\<lambda>r. name r = ''test_feature'' \<and> environment r = ''dev'')
             (run [Create (backend_at 1 10) sample_flag_data,
                   Create (backend_at 2 20) sample_flag_data])) \<le> 1
   \<and> get_flag (run [Create (backend_at 1 10) sample_flag_data])
        (name sample_flag_data) (environment sample_flag_data) \<noteq> None
   \<and> create_flag (backend_at 2 20) (run [Create (backend_at 1 10) sample_flag_data])
        sample_flag_data
      = (Inl (FlagAlreadyExistsError ''test_feature'' ''dev''),
         run [Create (backend_at 1 10) sample_flag_data])"
  using pair_unique_and_create_conflict
    [where n = "''test_feature''" and e = "''dev''"
       and calls = "[Create (backend_at 1 10) sample_flag_data,
                     Create (backend_at 2 20) sample_flag_data]"
       and db = "run [Create (backend_at 1 10) sample_flag_data]"
       and flag_data = sample_flag_data and w = "backend_at 2 20"]
  by (simp add: run_def create_flag_def get_flag_def commit_add_def
        violates_constraints_def sample_flag_data_def backend_at_def Let_def)

subsection \<open>Round trip\<close>

text \<open>
  C4. When \<^verbatim>\<open>create_flag\<close> succeeds on an input \<open>f\<close>, \<^verbatim>\<open>get_flag\<close> on the pair of \<open>f\<close> returns
  the created record: it agrees with \<open>f\<close> on name, environment, enabled and rollout, and its
  id and updated_at are the generated identifier and the time of creation. Create does
  succeed whenever no row carries the pair, the identifier is fresh and the commit goes
  through.
\<close>

theorem create_then_get_roundtrip:
  "(create_flag w db f = (Inr flag, db') \<longrightarrow>
      get_flag db' (name f) (environment f) = Some flag
      \<and> name flag = name f \<and> environment flag = environment f
      \<and> enabled flag = enabled f \<and> rollout flag = rollout f
      \<and> flag_id flag = uuid4 w \<and> updated_at flag = now w)
   \<and> (get_flag db (name f) (environment f) = None \<and> healthy w
        \<and> uuid4 w \<notin> set (map flag_id db) \<longrightarrow>
      create_flag w db f
        = (Inr \<lparr>name = name f, environment = environment f, enabled = enabled f,
                  rollout = rollout f, flag_id = uuid4 w, updated_at = now w\<rparr>,
           db @ [\<lparr>name = name f, environment = environment f, enabled = enabled f,
                  rollout = rollout f, flag_id = uuid4 w, updated_at = now w\<rparr>]))"
  by (auto simp: create_flag_cases get_flag_def find_append_case split: if_splits)

theorem create_then_get_roundtrip_witness:
  "create_flag (backend_at 1 10) [] sample_flag_data
     = (Inr \<lparr>name = ''test_feature'', environment = ''dev'', enabled = True, rollout = 100,
             flag_id = 1, updated_at = 10\<rparr>,
        [\<lparr>name = ''test_feature'', environment = ''dev'', enabled = True, rollout = 100,
          flag_id = 1, updated_at = 10\<rparr>])
   \<and> get_flag [\<lparr>name = ''test_feature'', environment = ''dev'', enabled = True, rollout = 100,
                 flag_id = 1, updated_at = 10\<rparr>] ''test_feature'' ''dev''
     = Some \<lparr>name = ''test_feature'', environment = ''dev'', enabled = True, rollout = 100,
             flag_id = 1, updated_at = 10\<rparr>"
  using create_then_get_roundtrip
    [where w = "backend_at 1 10" and db = "[]" and f = sample_flag_data
       and flag = "\<lparr>name = ''test_feature'', environment = ''dev'', enabled = True,
                     rollout = 100, flag_id = 1, updated_at = 10\<rparr>"
       and db' = "[\<lparr>name = ''test_feature'', environment = ''dev'', enabled = True,
                    rollout = 100, flag_id = 1, updated_at = 10\<rparr>]"]
  by (simp add: create_flag_def get_flag_def commit_add_def violates_constraints_def
        sample_flag_data_def backend_at_def)

subsection \<open>Delete\<close>

text \<open>
  C5. On a table that satisfies the schema, \<^verbatim>\<open>delete_flag\<close> returns \<open>False\<close> and leaves the
  table alone when no row carries the pair, and returns \<open>True\<close> with the row removed when
  one does and the commit goes through; neither case raises. \<open>True\<close> is returned exactly
  when a row carried the pair and was removed. After a successful delete, \<^verbatim>\<open>get_flag\<close> on
  the pair returns nothing and a second delete returns \<open>False\<close>.
\<close>

theorem delete_flag_finality:
  "table_ok db \<Longrightarrow>
     (get_flag db n e = None \<longrightarrow> delete_flag w db n e = (Inr False, db))
   \<and> (get_flag db n e = Some flag \<and> healthy w \<longrightarrow>
        delete_flag w db n e = (Inr True, removeAll flag db)
        \<and> get_flag (removeAll flag db) n e = None
        \<and> delete_flag w' (removeAll flag db) n e = (Inr False, removeAll flag db))
   \<and> (fst (delete_flag w db n e) = Inr True \<longleftrightarrow> get_flag db n e \<noteq> None \<and> healthy w)"
  by (auto simp: delete_flag_cases get_flag_after_delete split: option.splits)

theorem delete_flag_finality_witness:
  "table_ok [\<lparr>name = ''test_feature'', environment = ''dev'', enabled = True, rollout = 100,
              flag_id = 1, updated_at = 10\<rparr>]
   \<and> delete_flag (backend_at 2 20) [] ''test_feature'' ''dev'' = (Inr False, [])
   \<and> delete_flag (backend_at 2 20)
        [\<lparr>name = ''test_feature'', environment = ''dev'', enabled = True, rollout = 100,
          flag_id = 1, updated_at = 10\<rparr>] ''test_feature'' ''dev'' = (Inr True, [])
   \<and> get_flag [] ''test_feature'' ''dev'' = None
   \<and> delete_flag (backend_at 3 30) [] ''test_feature'' ''dev'' = (Inr False, [])"
  using delete_flag_finality
    [where db = "[\<lparr>name = ''test_feature'', environment = ''dev'', enabled = True,
                   rollout = 100, flag_id = 1, updated_at = 10\<rparr>]"
       and n = "''test_feature''" and e = "''dev''" and w = "backend_at 2 20"
       and w' = "backend_at 3 30"
       and flag = "\<lparr>name = ''test_feature'', environment = ''dev'', enabled = True,
                     rollout = 100, flag_id = 1, updated_at = 10\<rparr>"]
    delete_flag_finality
    [where db = "[]" and n = "''test_feature''" and e = "''dev''" and w = "backend_at 2 20"]
  by (simp add: table_ok_def get_flag_def backend_at_def)

subsection \<open>Update\<close>

text \<open>
  C3. For a flag that exists, an update whose payload supplies no field, or only values
  equal to the stored ones, returns the stored record as it is, \<^verbatim>\<open>updated_at\<close> included, and
  leaves the table alone. An update that changes \<^verbatim>\<open>enabled\<close> or \<^verbatim>\<open>rollout\<close> and whose commit
  goes through returns the record with exactly the supplied fields applied and
  \<^verbatim>\<open>updated_at\<close> set to the current time, and that record is what \<^verbatim>\<open>get_flag\<close> then finds.
\<close>

theorem update_flag_noop_and_change:
  "get_flag db n e = Some flag \<Longrightarrow>
     ((upd_enabled d = None \<or> upd_enabled d = Some (enabled flag))
       \<and> (upd_rollout d = None \<or> upd_rollout d = Some (rollout flag)) \<longrightarrow>
      update_flag w db n e d = (Inr (Some flag), db))
   \<and> (\<not> ((upd_enabled d = None \<or> upd_enabled d = Some (enabled flag))
           \<and> (upd_rollout d = None \<or> upd_rollout d = Some (rollout flag)))
       \<and> healthy w \<longrightarrow>
      (let flag' = flag\<lparr>enabled := (case upd_enabled d of None \<Rightarrow> enabled flag | Some b \<Rightarrow> b),
                         rollout := (case upd_rollout d of None \<Rightarrow> rollout flag | Some r \<Rightarrow> r),
                         updated_at := now w\<rparr>
       in fst (update_flag w db n e d) = Inr (Some flag')
          \<and> get_flag (snd (update_flag w db n e d)) n e = Some flag'))"
  by (auto simp: update_flag_cases Let_def get_flag_def find_map_stable split: option.splits)

theorem update_flag_noop_and_change_witness:
  "get_flag [\<lparr>name = ''test_feature'', environment = ''dev'', enabled = True, rollout = 100,
              flag_id = 1, updated_at = 10\<rparr>] ''test_feature'' ''dev''
     = Some \<lparr>name = ''test_feature'', environment = ''dev'', enabled = True, rollout = 100,
             flag_id = 1, updated_at = 10\<rparr>
   \<and> update_flag (backend_at 2 20)
        [\<lparr>name = ''test_feature'', environment = ''dev'', enabled = True, rollout = 100,
          flag_id = 1, updated_at = 10\<rparr>] ''test_feature'' ''dev''
        \<lparr>upd_enabled = None, upd_rollout = Some 100\<rparr>
     = (Inr (Some \<lparr>name = ''test_feature'', environment = ''dev'', enabled = True,
                   rollout = 100, flag_id = 1, updated_at = 10\<rparr>),
        [\<lparr>name = ''test_feature'', environment = ''dev'', enabled = True, rollout = 100,
          flag_id = 1, updated_at = 10\<rparr>])
   \<and> fst (update_flag (backend_at 2 20)
        [\<lparr>name = ''test_feature'', environment = ''dev'', enabled = True, rollout = 100,
          flag_id = 1, updated_at = 10\<rparr>] ''test_feature'' ''dev''
        \<lparr>upd_enabled = Some False, upd_rollout = Some 50\<rparr>)
     = Inr (Some \<lparr>name = ''test_feature'', environment = ''dev'', enabled = False,
                  rollout = 50, flag_id = 1, updated_at = 20\<rparr>)"
  using update_flag_noop_and_change
    [where db = "[\<lparr>name = ''test_feature'', environment = ''dev'', enabled = True,
                   rollout = 100, flag_id = 1, updated_at = 10\<rparr>]"
       and n = "''test_feature''" and e = "''dev''" and w = "backend_at 2 20"
       and flag = "\<lparr>name = ''test_feature'', environment = ''dev'', enabled = True,
                     rollout = 100, flag_id = 1, updated_at = 10\<rparr>"
       and d = "\<lparr>upd_enabled = None, upd_rollout = Some 100\<rparr>"]
    update_flag_noop_and_change
    [where db = "[\<lparr>name = ''test_feature'', environment = ''dev'', enabled = True,
                   rollout = 100, flag_id = 1, updated_at = 10\<rparr>]"
       and n = "''test_feature''" and e = "''dev''" and w = "backend_at 2 20"
       and flag = "\<lparr>name = ''test_feature'', environment = ''dev'', enabled = True,
                     rollout = 100, flag_id = 1, updated_at = 10\<rparr>"
       and d = "\<lparr>upd_enabled = Some False, upd_rollout = Some 50\<rparr>"]
  by (simp add: get_flag_def backend_at_def Let_def)

text \<open>
  C8. An update never changes an id, a name or an environment: whatever the payload and
  whatever the outcome, the table after the call has the same ids, names and environments
  row by row, every row differs from its predecessor at most in \<^verbatim>\<open>enabled\<close>, \<^verbatim>\<open>rollout\<close> and
  \<^verbatim>\<open>updated_at\<close>, and so does the returned record from the stored one.
\<close>

theorem update_flag_keeps_identity:
  "update_flag w db n e d = (res, db') \<Longrightarrow>
     map flag_id db' = map flag_id db
   \<and> map name db' = map name db
   \<and> map environment db' = map environment db
   \<and> list_all2 (\<lambda>r r'. r' = r\<lparr>enabled := enabled r', rollout := rollout r',
                                 updated_at := updated_at r'\<rparr>) db db'
   \<and> (get_flag db n e = Some flag \<and> res = Inr (Some flag') \<longrightarrow>
        flag_id flag' = flag_id flag \<and> name flag' = name flag
        \<and> environment flag' = environment flag
        \<and> flag' = flag\<lparr>enabled := enabled flag', rollout := rollout flag',
                       updated_at := updated_at flag'\<rparr>)"
  by (auto simp: update_flag_cases Let_def key_update list_all2_map2 list_all2_same
        split: option.splits if_splits)

theorem update_flag_keeps_identity_witness:
  "update_flag (backend_at 2 20)
        [\<lparr>name = ''test_feature'', environment = ''dev'', enabled = True, rollout = 100,
          flag_id = 1, updated_at = 10\<rparr>] ''test_feature'' ''dev''
        \<lparr>upd_enabled = Some False, upd_rollout = Some 50\<rparr>
     = (Inr (Some \<lparr>name = ''test_feature'', environment = ''dev'', enabled = False,
                   rollout = 50, flag_id = 1, updated_at = 20\<rparr>),
        [\<lparr>name = ''test_feature'', environment = ''dev'', enabled = False, rollout = 50,
          flag_id = 1, updated_at = 20\<rparr>])
   \<and> map flag_id [\<lparr>name = ''test_feature'', environment = ''dev'', enabled = False,
                    rollout = 50, flag_id = 1, updated_at = 20\<rparr>] = [1]
   \<and> map name [\<lparr>name = ''test_feature'', environment = ''dev'', enabled = False,
                 rollout = 50, flag_id = 1, updated_at = (20::nat)\<rparr>] = [''test_feature'']
   \<and> map environment [\<lparr>name = ''test_feature'', environment = ''dev'', enabled = False,
                        rollout = 50, flag_id = (1::nat), updated_at = (20::nat)\<rparr>] = [''dev'']"
  using update_flag_keeps_identity
    [where db = "[\<lparr>name = ''test_feature'', environment = ''dev'', enabled = True,
                   rollout = 100, flag_id = 1, updated_at = 10\<rparr>]"
       and n = "''test_feature''" and e = "''dev''" and w = "backend_at 2 20"
       and d = "\<lparr>upd_enabled = Some False, upd_rollout = Some 50\<rparr>"
       and res = "Inr (Some \<lparr>name = ''test_feature'', environment = ''dev'', enabled = False,
                   rollout = 50, flag_id = 1, updated_at = 20\<rparr>)"
       and db' = "[\<lparr>name = ''test_feature'', environment = ''dev'', enabled = False,
                    rollout = 50, flag_id = 1, updated_at = 20\<rparr>]"
       and flag = "\<lparr>name = ''test_feature'', environment = ''dev'', enabled = True,
                     rollout = 100, flag_id = 1, updated_at = 10\<rparr>"
       and flag' = "\<lparr>name = ''test_feature'', environment = ''dev'', enabled = False,
                   rollout = 50, flag_id = 1, updated_at = 20\<rparr>"]
  by (simp add: update_flag_def commit_update_def get_flag_def backend_at_def Let_def)

subsection \<open>Pagination\<close>

lemma fetch_all_pages_drop:
  "1 \<le> limit \<Longrightarrow> fetch_all_pages db env skip limit = drop skip (flag_query db env)"
proof (induction db env skip limit rule: fetch_all_pages.induct)
  case (1 db env skip limit)
  show ?case
  proof (cases "list_flags db env skip limit = []")
    case True
    with "1.prems" have "drop skip (flag_query db env) = []"
      by (auto simp: list_flags_def)
    with True show ?thesis
      by (simp add: fetch_all_pages.simps [of db env skip limit])
  next
    case False
    let ?q = "flag_query db env"
    have rest: "fetch_all_pages db env (skip + limit) limit = drop (skip + limit) ?q"
      using False "1.IH" "1.prems" by simp
    have "fetch_all_pages db env skip limit
            = take limit (drop skip ?q) @ drop (skip + limit) ?q"
      using False rest
      by (simp add: fetch_all_pages.simps [of db env skip limit] list_flags_def)
    also have "drop (skip + limit) ?q = drop limit (drop skip ?q)"
      by (simp add: add.commute)
    also have "take limit (drop skip ?q) @ drop limit (drop skip ?q) = drop skip ?q"
      by (rule append_take_drop_id)
    finally show ?thesis .
  qed
qed

text \<open>
  C6. For every environment filter and every fixed limit of at least 1, paging
  \<^verbatim>\<open>list_flags\<close> exhaustively over an unmodified table returns exactly the records that the
  filter selects, so their number is \<^verbatim>\<open>count_flags\<close> of the filter; and the total that the
  list endpoint reports is that count whatever offset and limit the request carries.
\<close>

theorem count_equals_exhaustive_paging:
  "1 \<le> limit \<Longrightarrow>
     fetch_all_pages db env 0 limit = flag_query db env
   \<and> length (fetch_all_pages db env 0 limit) = count_flags db env
   \<and> (list_feature_flags settings db api_key env skip_param limit_param = (Inr (page, tot), db')
        \<longrightarrow> tot = count_flags db env)"
  by (auto simp: fetch_all_pages_drop count_flags_def list_feature_flags_def Let_def
        split: sum.splits if_splits)

theorem count_equals_exhaustive_paging_witness:
  "(1::nat) \<le> 2
   \<and> length (fetch_all_pages three_flags (Some ''dev'') 0 2) = 2
   \<and> count_flags three_flags (Some ''dev'') = 2
   \<and> list_feature_flags \<lparr>API_KEYS = ''dev-api-key-12345''\<rparr> three_flags (Some ''dev-api-key-12345'') (Some ''dev'') (Some 1) (Some 1)
       = (Inr ([\<lparr>name = ''flag2'', environment = ''dev'', enabled = False, rollout = 50,
       flag_id = 2, updated_at = 20\<rparr>], 2), three_flags)"
  using count_equals_exhaustive_paging [where limit = 2 and db = three_flags and env = "Some ''dev''" and settings = "\<lparr>API_KEYS = ''dev-api-key-12345''\<rparr>" and api_key = "Some ''dev-api-key-12345''"
     and skip_param = "Some 1" and limit_param = "Some 1" and tot = 2 and db' = three_flags
     and page = "[\<lparr>name = ''flag2'', environment = ''dev'', enabled = False, rollout = 50,
       flag_id = 2, updated_at = 20\<rparr>]"]
  by (simp add: count_flags_def flag_query_def three_flags_def list_feature_flags_def
       verify_api_key_def get_api_keys_def strip_def isspace_def list_flags_def)

subsection \<open>Validation\<close>

lemma parse_create_rollout_out_of_range:
  "body_rollout b = Some r \<Longrightarrow> r < 0 \<or> 100 < r \<Longrightarrow> isl (parse_FeatureFlagCreate b)"
  by (auto simp: parse_FeatureFlagCreate_def rollout_field_def split: sum.splits)

lemma parse_update_cases:
  "parse_FeatureFlagUpdate u =
     (case upd_rollout u of
        None \<Rightarrow> Inr u
      | Some r \<Rightarrow> if r < 0 \<or> 100 < r then Inl OutOfRange else Inr u)"
  by (auto simp: parse_FeatureFlagUpdate_def validate_rollout_def split: option.splits)

lemma parse_create_environment:
  "parse_FeatureFlagCreate b = Inr fd \<Longrightarrow> body_environment b = Some v \<Longrightarrow>
     lower v \<in> set allowed \<and> environment fd = lower v"
  by (auto simp: parse_FeatureFlagCreate_def str_field_def validate_environment_def
        split: sum.splits option.splits if_splits)

lemma parse_create_bad_environment:
  "body_environment b = Some v \<Longrightarrow> lower v \<notin> set allowed \<Longrightarrow>
     isl (parse_FeatureFlagCreate b)"
  using parse_create_environment [of b _ v] by (cases "parse_FeatureFlagCreate b") auto

lemma get_flag_foreign_environment:
  "list_all (\<lambda>r. environment r \<in> set allowed) db \<Longrightarrow> e \<notin> set allowed \<Longrightarrow>
     get_flag db n e = None"
  by (auto simp: get_flag_def find_None_iff list_all_iff)

text \<open>
  C7. On create, a rollout outside 0..100 (such as -1 or 101) fails validation, whatever
  the other fields are, and the request is answered with a validation error before the
  table is touched; inside the range (0 and 100 included) a body whose name and
  environment are valid is accepted with that rollout. The same bound holds on update: a
  payload is rejected exactly when it supplies a rollout outside 0..100, and accepted
  unchanged otherwise. On create an omitted \<^verbatim>\<open>enabled\<close> becomes \<open>False\<close> and an omitted
  \<^verbatim>\<open>rollout\<close> becomes 100.
\<close>

theorem rollout_bounds_and_defaults:
  "(body_rollout b = Some r \<and> (r < 0 \<or> 100 < r) \<longrightarrow> isl (parse_FeatureFlagCreate b))
   \<and> (str_field 1 100 (body_name b) = Inr n \<and> str_field 1 50 (body_environment b) = Inr v
        \<and> validate_environment v = Inr e \<longrightarrow>
      parse_FeatureFlagCreate b =
        (case body_rollout b of
           None \<Rightarrow> Inr \<lparr>name = n, environment = e,
                         enabled = (case body_enabled b of None \<Rightarrow> False | Some x \<Rightarrow> x),
                         rollout = 100\<rparr>
         | Some r' \<Rightarrow>
             if 0 \<le> r' \<and> r' \<le> 100
             then Inr \<lparr>name = n, environment = e,
                       enabled = (case body_enabled b of None \<Rightarrow> False | Some x \<Rightarrow> x),
                       rollout = r'\<rparr>
             else Inl OutOfRange))
   \<and> (isl (parse_FeatureFlagUpdate u) \<longleftrightarrow>
        (\<exists>r'. upd_rollout u = Some r' \<and> (r' < 0 \<or> 100 < r')))
   \<and> (\<not> isl (parse_FeatureFlagUpdate u) \<longrightarrow> parse_FeatureFlagUpdate u = Inr u)
   \<and> (verify_api_key settings api_key = Inr key \<and> body_rollout b = Some r
        \<and> (r < 0 \<or> 100 < r) \<longrightarrow>
      create_feature_flag settings w db api_key (Decoded b) = (Inl RequestValidationError, db))
   \<and> (verify_api_key settings api_key = Inr key \<and> upd_rollout u = Some r
        \<and> (r < 0 \<or> 100 < r) \<longrightarrow>
      update_feature_flag settings w db api_key nm (Some env) (Decoded u)
        = (Inl RequestValidationError, db))"
proof -
  have a: "body_rollout b = Some r \<and> (r < 0 \<or> 100 < r) \<longrightarrow> isl (parse_FeatureFlagCreate b)"
    using parse_create_rollout_out_of_range by blast
  have b: "str_field 1 100 (body_name b) = Inr n \<and> str_field 1 50 (body_environment b) = Inr v
        \<and> validate_environment v = Inr e \<longrightarrow>
      parse_FeatureFlagCreate b =
        (case body_rollout b of
           None \<Rightarrow> Inr \<lparr>name = n, environment = e,
                         enabled = (case body_enabled b of None \<Rightarrow> False | Some x \<Rightarrow> x),
                         rollout = 100\<rparr>
         | Some r' \<Rightarrow>
             if 0 \<le> r' \<and> r' \<le> 100
             then Inr \<lparr>name = n, environment = e,
                       enabled = (case body_enabled b of None \<Rightarrow> False | Some x \<Rightarrow> x),
                       rollout = r'\<rparr>
             else Inl OutOfRange)"
    by (auto simp: parse_FeatureFlagCreate_def rollout_field_def enabled_field_def
          split: option.splits)
  have c: "isl (parse_FeatureFlagUpdate u) \<longleftrightarrow>
        (\<exists>r'. upd_rollout u = Some r' \<and> (r' < 0 \<or> 100 < r'))"
    by (auto simp: parse_update_cases split: option.splits)
  have d: "\<not> isl (parse_FeatureFlagUpdate u) \<longrightarrow> parse_FeatureFlagUpdate u = Inr u"
    by (auto simp: parse_update_cases split: option.splits)
  have e: "verify_api_key settings api_key = Inr key \<and> body_rollout b = Some r
        \<and> (r < 0 \<or> 100 < r) \<longrightarrow>
      create_feature_flag settings w db api_key (Decoded b) = (Inl RequestValidationError, db)"
    using parse_create_rollout_out_of_range [of b r]
    by (auto simp: create_feature_flag_def split: sum.splits)
  have f: "verify_api_key settings api_key = Inr key \<and> upd_rollout u = Some r
        \<and> (r < 0 \<or> 100 < r) \<longrightarrow>
      update_feature_flag settings w db api_key nm (Some env) (Decoded u)
        = (Inl RequestValidationError, db)"
    by (auto simp: update_feature_flag_def parse_update_cases)
  from a b c d e f show ?thesis by blast
qed

theorem rollout_bounds_and_defaults_witness:
  "isl (parse_FeatureFlagCreate (sample_body\<lparr>body_rollout := Some (- 1)\<rparr>))
   \<and> isl (parse_FeatureFlagCreate (sample_body\<lparr>body_rollout := Some 101\<rparr>))
   \<and> parse_FeatureFlagCreate (sample_body\<lparr>body_rollout := Some 0\<rparr>)
       = Inr \<lparr>name = ''test_feature'', environment = ''dev'', enabled = True, rollout = 0\<rparr>
   \<and> parse_FeatureFlagCreate (sample_body\<lparr>body_rollout := Some 100\<rparr>)
       = Inr \<lparr>name = ''test_feature'', environment = ''dev'', enabled = True, rollout = 100\<rparr>
   \<and> parse_FeatureFlagCreate (sample_body\<lparr>body_enabled := None, body_rollout := None\<rparr>)
       = Inr \<lparr>name = ''test_feature'', environment = ''dev'', enabled = False, rollout = 100\<rparr>
   \<and> isl (parse_FeatureFlagUpdate \<lparr>upd_enabled = None, upd_rollout = Some 101\<rparr>)
   \<and> isl (parse_FeatureFlagUpdate \<lparr>upd_enabled = None, upd_rollout = Some (- 1)\<rparr>)
   \<and> parse_FeatureFlagUpdate \<lparr>upd_enabled = None, upd_rollout = Some 0\<rparr>
       = Inr \<lparr>upd_enabled = None, upd_rollout = Some 0\<rparr>
   \<and> verify_api_key default_settings (Some ''dev-api-key-12345'') = Inr ''dev-api-key-12345''
   \<and> create_feature_flag default_settings (backend_at 1 10) []
         (Some ''dev-api-key-12345'') (Decoded (sample_body\<lparr>body_rollout := Some 101\<rparr>))
       = (Inl RequestValidationError, [])
   \<and> update_feature_flag default_settings (backend_at 1 10) []
         (Some ''dev-api-key-12345'') ''test_feature'' (Some ''dev'')
         (Decoded \<lparr>upd_enabled = None, upd_rollout = Some (- 1)\<rparr>)
       = (Inl RequestValidationError, [])"
proof -
  have key: "verify_api_key default_settings (Some ''dev-api-key-12345'')
               = Inr ''dev-api-key-12345''"
    by (simp add: verify_api_key_def get_api_keys_def default_settings_def strip_def
          isspace_def)
  have fields:
    "str_field 1 100 (body_name sample_body) = Inr ''test_feature''"
    "str_field 1 50 (body_environment sample_body) = Inr ''dev''"
    "validate_environment ''dev'' = Inr ''dev''"
    by (simp_all add: str_field_def sample_body_def validate_environment_def allowed_def
          lower_def lower_char_def)
  note low = rollout_bounds_and_defaults
    [where b = "sample_body\<lparr>body_rollout := Some (- 1)\<rparr>" and r = "- 1"
       and u = "\<lparr>upd_enabled = None, upd_rollout = Some (- 1)\<rparr>"
       and n = "''test_feature''" and v = "''dev''" and e = "''dev''"
       and settings = default_settings and api_key = "Some ''dev-api-key-12345''"
       and key = "''dev-api-key-12345''" and w = "backend_at 1 10" and db = "[]"
       and nm = "''test_feature''" and env = "''dev''"]
  note high = rollout_bounds_and_defaults
    [where b = "sample_body\<lparr>body_rollout := Some 101\<rparr>" and r = 101
       and u = "\<lparr>upd_enabled = None, upd_rollout = Some 101\<rparr>"
       and n = "''test_feature''" and v = "''dev''" and e = "''dev''"
       and settings = default_settings and api_key = "Some ''dev-api-key-12345''"
       and key = "''dev-api-key-12345''" and w = "backend_at 1 10" and db = "[]"
       and nm = "''test_feature''" and env = "''dev''"]
  note zero = rollout_bounds_and_defaults
    [where b = "sample_body\<lparr>body_rollout := Some 0\<rparr>" and r = 0
       and u = "\<lparr>upd_enabled = None, upd_rollout = Some 0\<rparr>"
       and n = "''test_feature''" and v = "''dev''" and e = "''dev''"
       and settings = default_settings and api_key = "Some ''dev-api-key-12345''"
       and key = "''dev-api-key-12345''" and w = "backend_at 1 10" and db = "[]"
       and nm = "''test_feature''" and env = "''dev''"]
  note hundred = rollout_bounds_and_defaults
    [where b = "sample_body\<lparr>body_rollout := Some 100\<rparr>" and r = 100
       and u = "\<lparr>upd_enabled = None, upd_rollout = Some 0\<rparr>"
       and n = "''test_feature''" and v = "''dev''" and e = "''dev''"
       and settings = default_settings and api_key = "Some ''dev-api-key-12345''"
       and key = "''dev-api-key-12345''" and w = "backend_at 1 10" and db = "[]"
       and nm = "''test_feature''" and env = "''dev''"]
  note omitted = rollout_bounds_and_defaults
    [where b = "sample_body\<lparr>body_enabled := None, body_rollout := None\<rparr>" and r = 0
       and u = "\<lparr>upd_enabled = None, upd_rollout = Some 0\<rparr>"
       and n = "''test_feature''" and v = "''dev''" and e = "''dev''"
       and settings = default_settings and api_key = "Some ''dev-api-key-12345''"
       and key = "''dev-api-key-12345''" and w = "backend_at 1 10" and db = "[]"
       and nm = "''test_feature''" and env = "''dev''"]
  from low high zero hundred omitted key fields show ?thesis
    by (simp add: sample_body_def)
qed

text \<open>
  C2, as the code has it. On create, an environment that does not match the allowed set
  when lowercased fails validation, and a matching one reaches \<^verbatim>\<open>create_flag\<close> in lowercase.
  Fetch, update and delete hand the \<^verbatim>\<open>environment\<close> parameter to the store as it was given,
  neither validated nor lowercased: the answer is the store's, and on a table whose
  environments are all in the allowed set a parameter outside the set finds no record, so
  the outcome is not-found.
\<close>

theorem environment_validated_on_create_only:
  "verify_api_key settings api_key = Inr key \<Longrightarrow>
     (body_environment b = Some v \<and> lower v \<notin> set allowed \<longrightarrow>
        create_feature_flag settings w db api_key (Decoded b) = (Inl RequestValidationError, db))
   \<and> (parse_FeatureFlagCreate b = Inr fd \<and> body_environment b = Some v \<longrightarrow>
        lower v \<in> set allowed \<and> environment fd = lower v
        \<and> create_feature_flag settings w db api_key (Decoded b) = create_flag w db fd)
   \<and> fetch_feature_flag settings db api_key n (Some e)
       = (case get_flag db n e of
            None \<Rightarrow> (Inl (FlagNotFoundError n e), db)
          | Some flag \<Rightarrow> (Inr flag, db))
   \<and> (parse_FeatureFlagUpdate u = Inr d \<longrightarrow>
        update_feature_flag settings w db api_key n (Some e) (Decoded u)
          = (case update_flag w db n e d of
               (Inl err, db') \<Rightarrow> (Inl err, db')
             | (Inr None, db') \<Rightarrow> (Inl (FlagNotFoundError n e), db')
             | (Inr (Some flag), db') \<Rightarrow> (Inr flag, db')))
   \<and> delete_feature_flag settings w db api_key n (Some e)
       = (case delete_flag w db n e of
            (Inl err, db') \<Rightarrow> (Inl err, db')
          | (Inr success, db') \<Rightarrow>
              if success then (Inr (), db') else (Inl (FlagNotFoundError n e), db'))
   \<and> (list_all (\<lambda>r. environment r \<in> set allowed) db \<and> e \<notin> set allowed \<longrightarrow>
        fetch_feature_flag settings db api_key n (Some e) = (Inl (FlagNotFoundError n e), db)
        \<and> delete_feature_flag settings w db api_key n (Some e)
            = (Inl (FlagNotFoundError n e), db)
        \<and> (parse_FeatureFlagUpdate u = Inr d \<longrightarrow>
             update_feature_flag settings w db api_key n (Some e) (Decoded u)
               = (Inl (FlagNotFoundError n e), db)))"
proof -
  assume k: "verify_api_key settings api_key = Inr key"
  have a: "body_environment b = Some v \<and> lower v \<notin> set allowed \<longrightarrow>
        create_feature_flag settings w db api_key (Decoded b) = (Inl RequestValidationError, db)"
    using parse_create_bad_environment [of b v] k
    by (auto simp: create_feature_flag_def split: sum.splits)
  have b: "parse_FeatureFlagCreate b = Inr fd \<and> body_environment b = Some v \<longrightarrow>
        lower v \<in> set allowed \<and> environment fd = lower v
        \<and> create_feature_flag settings w db api_key (Decoded b) = create_flag w db fd"
    using parse_create_environment [of b fd v] k by (auto simp: create_feature_flag_def)
  have c: "fetch_feature_flag settings db api_key n (Some e)
       = (case get_flag db n e of
            None \<Rightarrow> (Inl (FlagNotFoundError n e), db)
          | Some flag \<Rightarrow> (Inr flag, db))"
    using k by (simp add: fetch_feature_flag_def)
  have d: "parse_FeatureFlagUpdate u = Inr d \<longrightarrow>
        update_feature_flag settings w db api_key n (Some e) (Decoded u)
          = (case update_flag w db n e d of
               (Inl err, db') \<Rightarrow> (Inl err, db')
             | (Inr None, db') \<Rightarrow> (Inl (FlagNotFoundError n e), db')
             | (Inr (Some flag), db') \<Rightarrow> (Inr flag, db'))"
    using k by (simp add: update_feature_flag_def)
  have e: "delete_feature_flag settings w db api_key n (Some e)
       = (case delete_flag w db n e of
            (Inl err, db') \<Rightarrow> (Inl err, db')
          | (Inr success, db') \<Rightarrow>
              if success then (Inr (), db') else (Inl (FlagNotFoundError n e), db'))"
    using k by (auto simp: delete_feature_flag_def split: prod.splits sum.splits)
  have f: "list_all (\<lambda>r. environment r \<in> set allowed) db \<and> e \<notin> set allowed \<longrightarrow>
        fetch_feature_flag settings db api_key n (Some e) = (Inl (FlagNotFoundError n e), db)
        \<and> delete_feature_flag settings w db api_key n (Some e)
            = (Inl (FlagNotFoundError n e), db)
        \<and> (parse_FeatureFlagUpdate u = Inr d \<longrightarrow>
             update_feature_flag settings w db api_key n (Some e) (Decoded u)
               = (Inl (FlagNotFoundError n e), db))"
    using k get_flag_foreign_environment [of db e n]
    by (auto simp: fetch_feature_flag_def delete_feature_flag_def update_feature_flag_def
          delete_flag_def update_flag_def)
  from a b c d e f show ?thesis by blast
qed

theorem environment_validated_on_create_only_witness:
  "verify_api_key default_settings (Some ''dev-api-key-12345'') = Inr ''dev-api-key-12345''
   \<and> create_feature_flag default_settings (backend_at 2 20) [prod_flag]
        (Some ''dev-api-key-12345'')
        (Decoded (sample_body\<lparr>body_environment := Some ''qa''\<rparr>))
       = (Inl RequestValidationError, [prod_flag])
   \<and> parse_FeatureFlagCreate (sample_body\<lparr>body_environment := Some ''PROD''\<rparr>)
       = Inr \<lparr>name = ''test_feature'', environment = ''prod'', enabled = True, rollout = 100\<rparr>
   \<and> create_feature_flag default_settings (backend_at 2 20) [prod_flag]
        (Some ''dev-api-key-12345'')
        (Decoded (sample_body\<lparr>body_environment := Some ''PROD''\<rparr>))
       = create_flag (backend_at 2 20) [prod_flag]
           \<lparr>name = ''test_feature'', environment = ''prod'', enabled = True, rollout = 100\<rparr>
   \<and> list_all (\<lambda>r. environment r \<in> set allowed) [prod_flag]
   \<and> fetch_feature_flag default_settings [prod_flag] (Some ''dev-api-key-12345'') ''new_ui''
        (Some ''qa'')
       = (Inl (FlagNotFoundError ''new_ui'' ''qa''), [prod_flag])
   \<and> delete_feature_flag default_settings (backend_at 2 20) [prod_flag]
        (Some ''dev-api-key-12345'') ''new_ui'' (Some ''qa'')
       = (Inl (FlagNotFoundError ''new_ui'' ''qa''), [prod_flag])"
proof -
  have key: "verify_api_key default_settings (Some ''dev-api-key-12345'')
               = Inr ''dev-api-key-12345''"
    by (simp add: verify_api_key_def get_api_keys_def default_settings_def strip_def
          isspace_def)
  have parsed: "parse_FeatureFlagCreate (sample_body\<lparr>body_environment := Some ''PROD''\<rparr>)
       = Inr \<lparr>name = ''test_feature'', environment = ''prod'', enabled = True, rollout = 100\<rparr>"
    by (simp add: parse_FeatureFlagCreate_def sample_body_def str_field_def
          validate_environment_def rollout_field_def enabled_field_def allowed_def lower_def
          lower_char_def)
  have stored: "list_all (\<lambda>r. environment r \<in> set allowed) [prod_flag]"
    by (simp add: prod_flag_def allowed_def)
  have qa: "lower ''qa'' \<notin> set allowed" "''qa'' \<notin> set allowed"
    by (simp_all add: allowed_def lower_def lower_char_def)
  note rejected = environment_validated_on_create_only
    [OF key, where b = "sample_body\<lparr>body_environment := Some ''qa''\<rparr>" and v = "''qa''"
       and w = "backend_at 2 20" and db = "[prod_flag]"]
  note normalised = environment_validated_on_create_only
    [OF key, where b = "sample_body\<lparr>body_environment := Some ''PROD''\<rparr>"
       and v = "''PROD''" and w = "backend_at 2 20" and db = "[prod_flag]"
       and fd = "\<lparr>name = ''test_feature'', environment = ''prod'', enabled = True,
                   rollout = 100\<rparr>"
       and n = "''new_ui''" and e = "''qa''"]
  from rejected normalised key parsed stored qa show ?thesis by simp
qed

text \<open>
  C2, as stated, fails on fetch, update and delete: the environment \<^verbatim>\<open>qa\<close> is answered
  with not-found rather than a validation failure, and \<^verbatim>\<open>PROD\<close> is not lowercased on its
  way to the store, so the flag stored under \<^verbatim>\<open>prod\<close> is not found.
\<close>

theorem lookup_environment_not_validated:
  "lower ''qa'' \<notin> set allowed
   \<and> fetch_feature_flag default_settings [] (Some ''dev-api-key-12345'') ''new_ui'' (Some ''qa'')
       = (Inl (FlagNotFoundError ''new_ui'' ''qa''), [])
   \<and> delete_feature_flag default_settings (backend_at 2 20) [] (Some ''dev-api-key-12345'')
        ''new_ui'' (Some ''qa'')
       = (Inl (FlagNotFoundError ''new_ui'' ''qa''), [])
   \<and> update_feature_flag default_settings (backend_at 2 20) [] (Some ''dev-api-key-12345'')
        ''new_ui'' (Some ''qa'') (Decoded \<lparr>upd_enabled = Some False, upd_rollout = None\<rparr>)
       = (Inl (FlagNotFoundError ''new_ui'' ''qa''), [])
   \<and> lower ''PROD'' = ''prod''
   \<and> fetch_feature_flag default_settings [prod_flag] (Some ''dev-api-key-12345'') ''new_ui''
        (Some ''prod'')
       = (Inr prod_flag, [prod_flag])
   \<and> fetch_feature_flag default_settings [prod_flag] (Some ''dev-api-key-12345'') ''new_ui''
        (Some ''PROD'')
       = (Inl (FlagNotFoundError ''new_ui'' ''PROD''), [prod_flag])"
  by (simp add: fetch_feature_flag_def delete_feature_flag_def update_feature_flag_def
        verify_api_key_def get_api_keys_def default_settings_def strip_def isspace_def
        get_flag_def delete_flag_def update_flag_def parse_FeatureFlagUpdate_def
        prod_flag_def lower_def lower_char_def allowed_def)

subsection \<open>Access control\<close>




subsection \<open>Empty environment filter\<close>

text \<open>
  C10. \<^verbatim>\<open>list_flags\<close> and \<^verbatim>\<open>count_flags\<close> treat the empty string as an omitted filter:
  for every table and every page, \<^verbatim>\<open>environment=""\<close> gives the page and the count over
  all environments, also where that differs from the rows whose environment is the empty
  string; the list endpoint inherits this.
\<close>

theorem empty_environment_filter_is_no_filter:
  "list_flags db (Some []) skip limit = list_flags db None skip limit
   \<and> list_flags db (Some []) skip limit = take limit (drop skip db)
   \<and> count_flags db (Some []) = count_flags db None
   \<and> count_flags db (Some []) = length db
   \<and> list_feature_flags settings db api_key (Some []) skip_param limit_param
       = list_feature_flags settings db api_key None skip_param limit_param"
proof -
  have q: "flag_query db (Some []) = flag_query db None" "flag_query db None = db"
    by (simp_all add: flag_query_def)
  have l: "list_flags db (Some []) = list_flags db None"
    by (intro ext) (simp add: list_flags_def q)
  have c: "count_flags db (Some []) = count_flags db None"
    by (simp add: count_flags_def q)
  show ?thesis
    unfolding list_feature_flags_def l c
    by (simp add: list_flags_def count_flags_def q)
qed

end
